theory Spec2Isabelle
  imports Complex_Main "HOL-Library.AList"
begin

section \<open>gofipe: a shallow embedding of \<^verbatim>\<open>src/app/main.go\<close>\<close>

text \<open>
  The service proxies the FIPE vehicle price API. Its handlers are modelled as pure
  functions of an environment (the network, the clock and the behaviour of
  \<^verbatim>\<open>encoding/json\<close> on the payloads involved), the request, and the process state they
  touch (the Prometheus collectors, the cache), each returning the new state and the
  response written.

  Byte slices and Go strings are lists of bytes (\<open>string\<close>); a nil slice and an empty
  one are both \<open>[]\<close> where the code only looks at the length.
\<close>

type_synonym bytes = string
type_synonym url = string

subsection \<open>Decimal printing (\<^verbatim>\<open>%d\<close>, \<^verbatim>\<open>%02d\<close>, the layout \<^verbatim>\<open>2006-01\<close>)\<close>

fun showNat :: "nat \<Rightarrow> string" where
  "showNat n =
     (if n < 10 then [''0123456789'' ! n]
      else showNat (n div 10) @ [''0123456789'' ! (n mod 10)])"

declare showNat.simps [simp del]

definition showInt :: "int \<Rightarrow> string" where
  "showInt i = (if i < 0 then ''-'' @ showNat (nat (- i)) else showNat (nat i))"

definition padLeft :: "nat \<Rightarrow> string \<Rightarrow> string" where
  "padLeft w s = replicate (w - length s) (CHR ''0'') @ s"

text \<open>\<^verbatim>\<open>%02d\<close> of a month number (never negative).\<close>

definition pad2 :: "nat \<Rightarrow> string" where
  "pad2 n = padLeft 2 (showNat n)"

text \<open>The layout element \<^verbatim>\<open>2006\<close>: the year zero-padded to four digits, a minus sign
  first for a year before 0.\<close>

definition year4 :: "int \<Rightarrow> string" where
  "year4 y = (if y < 0 then ''-'' else []) @ padLeft 4 (showNat (nat \<bar>y\<bar>))"

subsection \<open>The clock and \<^verbatim>\<open>time.Time.AddDate\<close>\<close>

text \<open>
  The handlers read only the calendar date of \<^verbatim>\<open>time.Now()\<close>, in the zone of the
  server. The model gives a request one date: every call of \<^verbatim>\<open>time.Now()\<close> while the
  request is served falls on the same day.
\<close>

record date =
  year :: int
  month :: nat
  day :: nat

definition isLeap :: "int \<Rightarrow> bool" where
  "isLeap y = (y mod 4 = 0 \<and> (y mod 100 \<noteq> 0 \<or> y mod 400 = 0))"

definition daysIn :: "int \<Rightarrow> nat \<Rightarrow> nat" where
  "daysIn y m =
     (if m = 2 then (if isLeap y then 29 else 28)
      else if m = 4 \<or> m = 6 \<or> m = 9 \<or> m = 11 then 30 else 31)"

text \<open>
  \<^verbatim>\<open>t.AddDate(0, n, 0)\<close> for a calendar date \<open>t\<close>. Go builds
  \<^verbatim>\<open>Date(year, month + n, day, ...)\<close> and normalises it: the month is brought into
  1..12 by carrying into the year, and a day past the end of that month carries into
  the next month (``adding one month to October 31 yields December 1''). The day of
  a calendar date is at most 31 and no month is shorter than 28 days, so one carry is
  enough; December has 31 days, so the carry out of December never happens for a
  calendar date and is written only to keep the function total.
\<close>

definition addMonths :: "date \<Rightarrow> int \<Rightarrow> date" where
  "addMonths t n =
     (let m0 = int (month t) - 1 + n;
          y = year t + m0 div 12;
          m = nat (m0 mod 12) + 1
      in if day t \<le> daysIn y m then \<lparr>year = y, month = m, day = day t\<rparr>
         else if m = 12 then \<lparr>year = y + 1, month = 1, day = day t - daysIn y m\<rparr>
         else \<lparr>year = y, month = m + 1, day = day t - daysIn y m\<rparr>)"

text \<open>\<^verbatim>\<open>fmt.Sprintf("%02d/%d", int(ref.Month()), ref.Year())\<close>\<close>

definition monthLabel :: "date \<Rightarrow> string" where
  "monthLabel t = pad2 (month t) @ ''/'' @ showInt (year t)"

text \<open>\<^verbatim>\<open>ref.Format("2006-01")\<close>\<close>

definition formatYearMonth :: "date \<Rightarrow> string" where
  "formatYearMonth t = year4 (year t) @ ''-'' @ pad2 (month t)"

subsection \<open>The in-memory cache\<close>

text \<open>
  Times are readings of the process clock in nanoseconds, a \<^verbatim>\<open>time.Duration\<close> is a
  number of nanoseconds. \<^verbatim>\<open>time.Now().After(it.expiresAt)\<close> is the strict comparison.
  The read lock and the write lock make each of the two functions atomic, which is
  what a function of the map models.
\<close>

record cacheItem =
  data :: bytes
  expiresAt :: int

type_synonym cache = "string \<rightharpoonup> cacheItem"

definition getCached :: "cache \<Rightarrow> int \<Rightarrow> string \<Rightarrow> bytes \<times> bool" where
  "getCached c now key =
     (case c key of
        None \<Rightarrow> ([], False)
      | Some it \<Rightarrow> if now > expiresAt it then ([], False) else (data it, True))"

definition setCached :: "cache \<Rightarrow> int \<Rightarrow> string \<Rightarrow> bytes \<Rightarrow> int \<Rightarrow> cache" where
  "setCached c now key d ttl = c(key \<mapsto> \<lparr>data = d, expiresAt = now + ttl\<rparr>)"

subsection \<open>The Prometheus collectors\<close>

text \<open>
  A counter vector is a map from label values to a count, a gauge vector a partial
  map from label values to the value last set (no entry: no series yet). A gauge
  holds a \<^verbatim>\<open>float64\<close>; the model keeps the rational number that
  \<^verbatim>\<open>strconv.ParseFloat\<close> rounds to it, so two gauges set from one parse are equal
  in the model exactly when they are in the program. \<^verbatim>\<open>WithLabelValues(...).Inc()\<close> and
  \<^verbatim>\<open>WithLabelValues(...).Set(f)\<close> are the update of the map at the label values; label
  values that the client library refuses are outside the model. Handlers are taken
  one at a time.
\<close>

record metrics =
  httpRequestsTotal :: "string \<times> string \<Rightarrow> nat"
  vehicleSearchStats :: "string \<times> string \<times> string \<Rightarrow> nat"
  priceMinGauge :: "string \<times> string \<times> string \<rightharpoonup> rat"
  priceMaxGauge :: "string \<times> string \<times> string \<rightharpoonup> rat"
  fuelCounter :: "string \<Rightarrow> nat"
  brandCounter :: "string \<Rightarrow> nat"

definition recordMetrics :: "string \<Rightarrow> string \<Rightarrow> metrics \<Rightarrow> metrics" where
  "recordMetrics path meth m =
     m\<lparr>httpRequestsTotal :=
         (httpRequestsTotal m)((path, meth) := httpRequestsTotal m (path, meth) + 1)\<rparr>"

subsection \<open>Requests, responses, the network\<close>

text \<open>The query parameters a handler reads (\<^verbatim>\<open>r.URL.Query().Get\<close>, empty when
  absent) and the request method.\<close>

record request =
  reqMethod :: string
  vType :: string
  brandId :: string
  modelId :: string
  yearId :: string
  brandName :: string
  modelName :: string
  monthsStr :: string

text \<open>\<open>Written b\<close>: the handler set the JSON content type and wrote \<open>b\<close> (status 200).
  \<open>HttpError code msg\<close>: \<^verbatim>\<open>http.Error(w, msg, code)\<close>.\<close>

datatype response = Written bytes | HttpError nat string

text \<open>What one GET gives: no response at all (the request could not be built or
  sent), or a status with the outcome of reading the body.\<close>

datatype http_result = TransportError string | Response nat "string + bytes"

text \<open>
  A value as \<^verbatim>\<open>json.Unmarshal\<close> stores it in an \<^verbatim>\<open>interface{}\<close>: nil, a bool, a
  \<^verbatim>\<open>float64\<close> (kept as the rational it is), a string, a slice, or a
  \<^verbatim>\<open>map[string]interface{}\<close>. The map is an association list read with \<open>map_of\<close> and
  written with \<open>AList.update\<close>; its order means nothing.
\<close>

datatype json =
  JNull | JBool bool | JNum rat | JStr string | JArr "json list" | JObj "(string \<times> json) list"

record PriceResponse =
  Price :: string
  Brand :: string
  Model :: string
  ModelYear :: int
  Fuel :: string
  CodeFipe :: string
  ReferenceMonth :: string
  VehicleType :: int
  AcronymFuel :: string

text \<open>
  The environment of a request. \<open>httpGet\<close> is the upstream as this request sees it:
  while the request is served, what a GET gives depends on its URL only. \<open>today\<close> is
  the date of the clock. The other fields are \<^verbatim>\<open>encoding/json\<close>: \<open>unmarshalPR\<close> is
  \<^verbatim>\<open>json.Unmarshal\<close> into a fresh \<^verbatim>\<open>PriceResponse\<close> (\<open>None\<close>: it returned an error),
  \<open>unmarshalAny\<close> is \<^verbatim>\<open>json.Unmarshal\<close> into an \<^verbatim>\<open>interface{}\<close> (objects as
  association lists read with \<open>map_of\<close>), \<open>marshalPR\<close> and \<open>marshalAny\<close> are
  \<^verbatim>\<open>json.Marshal\<close> of a \<^verbatim>\<open>PriceResponse\<close> and of a decoded value, and \<open>marshalHistory\<close>
  is \<^verbatim>\<open>json.Marshal\<close> of the map holding the raw messages under the key
  \<^verbatim>\<open>history\<close>. The source checks the error of each of them, and so does the model.
\<close>

record env =
  httpGet :: "url \<Rightarrow> http_result"
  today :: date
  unmarshalPR :: "bytes \<Rightarrow> PriceResponse option"
  marshalPR :: "PriceResponse \<Rightarrow> bytes option"
  unmarshalAny :: "bytes \<Rightarrow> json option"
  marshalAny :: "json \<Rightarrow> bytes option"
  marshalHistory :: "bytes list \<Rightarrow> bytes option"

text \<open>
  \<^verbatim>\<open>json.Unmarshal\<close> into a \<^verbatim>\<open>map[string]interface{}\<close>: the object that the decoding
  into an \<^verbatim>\<open>interface{}\<close> gives, an error for every other JSON value. (For the text
  \<^verbatim>\<open>null\<close> Go reports no error and leaves the map nil; the handlers decode into a map
  only what the decoding into a \<^verbatim>\<open>PriceResponse\<close> rejected, and that one accepts
  \<^verbatim>\<open>null\<close>.)
\<close>

definition unmarshalMap :: "env \<Rightarrow> bytes \<Rightarrow> (string \<times> json) list option" where
  "unmarshalMap e b = (case unmarshalAny e b of Some (JObj kv) \<Rightarrow> Some kv | _ \<Rightarrow> None)"

definition fetchExternal :: "env \<Rightarrow> url \<Rightarrow> string + bytes" where
  "fetchExternal e u =
     (case httpGet e u of
        TransportError msg \<Rightarrow> Inl msg
      | Response st body \<Rightarrow>
          if st \<noteq> 200
          then Inl (''external API returned status: '' @ showNat st @ '' for url: '' @ u)
          else body)"

definition BaseURL :: string where
  "BaseURL = ''https://fipe.parallelum.com.br/api/v2''"

text \<open>\<^verbatim>\<open>fmt.Sprintf("%s/%s/brands/%s/models/%s/years/%s", BaseURL, vType, brandId,
  modelId, yearId)\<close>: the price URL, and the prefix of every URL of the history handler.\<close>

definition priceURL :: "request \<Rightarrow> url" where
  "priceURL r =
     BaseURL @ ''/'' @ vType r @ ''/brands/'' @ brandId r @ ''/models/'' @ modelId r
       @ ''/years/'' @ yearId r"

subsection \<open>\<^verbatim>\<open>parsePrice\<close>\<close>

datatype parse_error = NoNumericPart | ErrSyntax | ErrRange

definition isDigit :: "char \<Rightarrow> bool" where
  "isDigit c = (c \<in> set ''0123456789'')"

definition digitVal :: "char \<Rightarrow> nat" where
  "digitVal c = of_char c - 48"

definition decimal :: "string \<Rightarrow> nat" where
  "decimal ds = foldl (\<lambda>a c. 10 * a + digitVal c) 0 ds"

definition isSpace :: "char \<Rightarrow> bool" where
  "isSpace c = (c \<in> set [CHR 0x09, CHR 0x0A, CHR 0x0B, CHR 0x0C, CHR 0x0D, CHR '' ''])"

text \<open>\<^verbatim>\<open>strings.TrimSpace\<close> on the ASCII white space. (Go also trims the other Unicode
  spaces; none of their bytes is a digit, a comma or a dot, so like the ASCII ones
  they never reach the match below.)\<close>

definition TrimSpace :: "string \<Rightarrow> string" where
  "TrimSpace s = rev (dropWhile isSpace (rev (dropWhile isSpace s)))"

text \<open>The class \<^verbatim>\<open>[0-9,.]\<close> and \<^verbatim>\<open>FindString\<close> of \<^verbatim>\<open>[0-9,.]+\<close>: the leftmost
  maximal run of such characters, the empty string when there is none.\<close>

definition inClass :: "char \<Rightarrow> bool" where
  "inClass c = (isDigit c \<or> c = CHR '','' \<or> c = CHR ''.'')"

definition FindString :: "string \<Rightarrow> string" where
  "FindString s = takeWhile inClass (dropWhile (\<lambda>c. \<not> inClass c) s)"

text \<open>\<^verbatim>\<open>strings.ReplaceAll(m, ".", "")\<close> and \<^verbatim>\<open>strings.ReplaceAll(m, ",", ".")\<close>\<close>

definition removeDots :: "string \<Rightarrow> string" where
  "removeDots m = filter (\<lambda>c. c \<noteq> CHR ''.'') m"

definition commasToDots :: "string \<Rightarrow> string" where
  "commasToDots m = map (\<lambda>c. if c = CHR '','' then CHR ''.'' else c) m"

text \<open>The rewriting of the separators before the number is parsed.\<close>

definition fixSeparators :: "string \<Rightarrow> string" where
  "fixSeparators m =
     (if CHR ''.'' \<in> set m \<and> CHR '','' \<in> set m then commasToDots (removeDots m)
      else if CHR '','' \<in> set m \<and> CHR ''.'' \<notin> set m then commasToDots m
      else m)"

text \<open>
  \<^verbatim>\<open>strconv.ParseFloat(m, 64)\<close> on the strings \<^verbatim>\<open>parsePrice\<close> passes to it, which hold
  digits and dots only (lemma \<open>parsePrice_argument_chars\<close>): digits with at most one dot
  and at least one digit are a number, everything else is a syntax error; a number
  that rounds to no finite \<^verbatim>\<open>float64\<close> (from \<open>2^1024 - 2^970\<close> on) is a range error.
  The value is the exact decimal; Go returns the \<^verbatim>\<open>float64\<close> nearest to it.
\<close>

definition ParseFloat :: "string \<Rightarrow> parse_error + rat" where
  "ParseFloat s =
     (let ip = takeWhile isDigit s; rest = dropWhile isDigit s;
          fp = (case rest of [] \<Rightarrow> [] | c # cs \<Rightarrow> cs)
      in if (rest \<noteq> [] \<and> hd rest \<noteq> CHR ''.'') \<or> \<not> list_all isDigit fp \<or> ip @ fp = []
         then Inl ErrSyntax
         else let q = of_nat (decimal (ip @ fp)) / 10 ^ length fp
              in if (2::rat) ^ 1024 - 2 ^ 970 \<le> q then Inl ErrRange else Inr q)"

definition parsePrice :: "string \<Rightarrow> parse_error + rat" where
  "parsePrice s =
     (let m = FindString (TrimSpace s)
      in if m = [] then Inl NoNumericPart else ParseFloat (fixSeparators m))"

subsection \<open>\<^verbatim>\<open>handleGetPrice\<close>\<close>

text \<open>The state of the collectors when the upstream fetch starts: the request, the
  vehicle search and the brand have been counted.\<close>

definition countSearch :: "request \<Rightarrow> metrics \<Rightarrow> metrics" where
  "countSearch r m =
     (let m1 = recordMetrics ''/api/price'' (reqMethod r) m;
          k = (brandName r, modelName r, yearId r);
          m2 = m1\<lparr>vehicleSearchStats := (vehicleSearchStats m1)(k := vehicleSearchStats m1 k + 1)\<rparr>
      in m2\<lparr>brandCounter := (brandCounter m2)(brandName r := brandCounter m2 (brandName r) + 1)\<rparr>)"

text \<open>The block under \<^verbatim>\<open>json.Unmarshal(data, &pr)\<close> having succeeded.\<close>

definition observePrice :: "request \<Rightarrow> PriceResponse \<Rightarrow> metrics \<Rightarrow> metrics" where
  "observePrice r pr m =
     (let m1 = (case parsePrice (Price pr) of
                  Inr f \<Rightarrow>
                    m\<lparr>priceMinGauge := (priceMinGauge m)((Brand pr, Model pr, yearId r) \<mapsto> f),
                      priceMaxGauge := (priceMaxGauge m)((Brand pr, Model pr, yearId r) \<mapsto> f)\<rparr>
                | Inl err \<Rightarrow> m)
      in if Fuel pr \<noteq> []
         then m1\<lparr>fuelCounter := (fuelCounter m1)(Fuel pr := fuelCounter m1 (Fuel pr) + 1)\<rparr>
         else m1)"

definition handleGetPrice :: "env \<Rightarrow> request \<Rightarrow> metrics \<Rightarrow> metrics \<times> response" where
  "handleGetPrice e r m =
     (let m3 = countSearch r m
      in case fetchExternal e (priceURL r) of
           Inl err \<Rightarrow> (m3, HttpError 502 err)
         | Inr d \<Rightarrow>
             (case unmarshalPR e d of
                Some pr \<Rightarrow> (observePrice r pr m3, Written d)
              | None \<Rightarrow> (m3, Written d)))"

subsection \<open>\<^verbatim>\<open>handleGetPriceHistory\<close>\<close>

text \<open>
  \<^verbatim>\<open>strconv.Atoi\<close>: an optional sign and at least one decimal digit, nothing else; a
  value outside the 64-bit \<^verbatim>\<open>int\<close> is an error.
\<close>

definition Atoi :: "string \<Rightarrow> int option" where
  "Atoi s =
     (let neg = (s \<noteq> [] \<and> hd s = CHR ''-'');
          ds = (if s \<noteq> [] \<and> (hd s = CHR ''-'' \<or> hd s = CHR ''+'') then tl s else s);
          v = (if neg then - int (decimal ds) else int (decimal ds))
      in if ds = [] \<or> \<not> list_all isDigit ds then None
         else if v < - (2 ^ 63) \<or> 2 ^ 63 - 1 < v then None
         else Some v)"

text \<open>The month count: 12 when the parameter is absent, is no number or is not
  positive.\<close>

definition monthsOf :: "request \<Rightarrow> nat" where
  "monthsOf r =
     (case Atoi (if monthsStr r = [] then ''12'' else monthsStr r) of
        None \<Rightarrow> 12
      | Some n \<Rightarrow> if n \<le> 0 then 12 else nat n)"

definition histURL :: "request \<Rightarrow> url" where
  "histURL r = priceURL r @ ''/history?months='' @ showNat (monthsOf r)"

text \<open>The date \<^verbatim>\<open>time.Now().AddDate(0, -i, 0)\<close> and the label made of it.\<close>

definition refDate :: "env \<Rightarrow> nat \<Rightarrow> date" where
  "refDate e i = addMonths (today e) (- int i)"

definition refLabel :: "env \<Rightarrow> nat \<Rightarrow> string" where
  "refLabel e i = monthLabel (refDate e i)"

text \<open>The native endpoint answered: the loop over \<^verbatim>\<open>arr\<close>, index \<open>i\<close> first.\<close>

fun relabelItems :: "env \<Rightarrow> nat \<Rightarrow> json list \<Rightarrow> json list" where
  "relabelItems e i [] = []"
| "relabelItems e i (x # xs) =
     (case x of
        JObj item \<Rightarrow> JObj (AList.update ''referenceMonth'' (JStr (refLabel e i)) item)
      | _ \<Rightarrow> x) # relabelItems e (Suc i) xs"

text \<open>The decoded payload after the loop and \<^verbatim>\<open>m["history"] = arr\<close>; \<open>None\<close> when
  the payload is no object or has no array under \<^verbatim>\<open>history\<close>.\<close>

definition normalizeDirect :: "env \<Rightarrow> json \<Rightarrow> json option" where
  "normalizeDirect e raw =
     (case raw of
        JObj m \<Rightarrow>
          (case map_of m ''history'' of
             Some (JArr arr) \<Rightarrow>
               Some (JObj (AList.update ''history'' (JArr (relabelItems e 0 arr)) m))
           | _ \<Rightarrow> None)
      | _ \<Rightarrow> None)"

definition respondDirect :: "env \<Rightarrow> bytes \<Rightarrow> response" where
  "respondDirect e d =
     (case unmarshalAny e d of
        None \<Rightarrow> Written d
      | Some raw \<Rightarrow>
          (case normalizeDirect e raw of
             None \<Rightarrow> Written d
           | Some m \<Rightarrow> (case marshalAny e m of Some b \<Rightarrow> Written b | None \<Rightarrow> Written d)))"

text \<open>The five candidate URLs of one month, in the order they are tried.\<close>

definition candidates :: "request \<Rightarrow> string \<Rightarrow> url list" where
  "candidates r ref =
     [priceURL r @ ''?referenceMonth='' @ ref,
      priceURL r @ ''?reference='' @ ref,
      priceURL r @ ''?month='' @ ref,
      priceURL r @ ''/history/'' @ ref,
      priceURL r @ ''/historico/'' @ ref]"

text \<open>\<^verbatim>\<open>strings.Split(ref, "-")\<close>\<close>

fun splitDash :: "string \<Rightarrow> string list" where
  "splitDash [] = [[]]"
| "splitDash (c # cs) =
     (if c = CHR ''-'' then [] # splitDash cs
      else (case splitDash cs of p # ps \<Rightarrow> (c # p) # ps | [] \<Rightarrow> [[c]]))"

definition fillReferenceMonth :: "string \<Rightarrow> PriceResponse \<Rightarrow> PriceResponse" where
  "fillReferenceMonth ref pr =
     (if ReferenceMonth pr = []
      then (case splitDash ref of
              [y, m] \<Rightarrow> pr\<lparr>ReferenceMonth := m @ ''/'' @ y\<rparr>
            | _ \<Rightarrow> pr\<lparr>ReferenceMonth := ref\<rparr>)
      else pr)"

text \<open>
  The slot of a month is \<open>None\<close> while nothing was assigned to \<^verbatim>\<open>results[offset]\<close>.
  \<open>storeRaw\<close> is the part of the loop body after the decoding into a
  \<^verbatim>\<open>PriceResponse\<close> failed: the generic decoding with its two repairs, or the raw
  bytes as the last resort.
\<close>

definition storeRaw :: "env \<Rightarrow> string \<Rightarrow> bytes \<Rightarrow> bytes option" where
  "storeRaw e ref b =
     (case unmarshalMap e b of
        None \<Rightarrow> Some b
      | Some raw \<Rightarrow>
          (let raw1 = (if map_of raw ''referenceMonth'' = None
                          \<or> map_of raw ''referenceMonth'' = Some JNull
                       then AList.update ''referenceMonth'' (JStr ref) raw else raw);
               raw2 = (if map_of raw1 ''price'' = None
                       then (case map_of raw1 ''Valor'' of
                               Some v \<Rightarrow> AList.update ''price'' v raw1
                             | None \<Rightarrow> raw1)
                       else raw1)
           in case marshalAny e (JObj raw2) of Some nb \<Rightarrow> Some nb | None \<Rightarrow> Some b))"

fun tryCandidates :: "env \<Rightarrow> string \<Rightarrow> url list \<Rightarrow> bytes option" where
  "tryCandidates e ref [] = None"
| "tryCandidates e ref (u # us) =
     (case fetchExternal e u of
        Inl err \<Rightarrow> tryCandidates e ref us
      | Inr b \<Rightarrow>
          (case unmarshalPR e b of
             Some pr0 \<Rightarrow>
               (let pr = fillReferenceMonth ref pr0
                in if Price pr = [] then tryCandidates e ref us
                   else (case marshalPR e pr of
                           Some nb \<Rightarrow> Some nb
                         | None \<Rightarrow> storeRaw e ref b))
           | None \<Rightarrow> storeRaw e ref b))"

text \<open>The task of one month. The tasks share nothing but the slice, each writes its
  own slot, and the handler waits for all of them: the slots are the list of their
  results.\<close>

definition probeMonth :: "env \<Rightarrow> request \<Rightarrow> nat \<Rightarrow> bytes option" where
  "probeMonth e r offset =
     tryCandidates e (formatYearMonth (refDate e offset))
       (candidates r (formatYearMonth (refDate e offset)))"

definition probeAll :: "env \<Rightarrow> request \<Rightarrow> bytes option list" where
  "probeAll e r = map (probeMonth e r) [0..<monthsOf r]"

text \<open>The slots of positive length, in month order.\<close>

definition collect :: "bytes option list \<Rightarrow> bytes list" where
  "collect results =
     filter (\<lambda>b. 0 < length b) (map (\<lambda>s. case s of None \<Rightarrow> [] | Some b \<Rightarrow> b) results)"

text \<open>The final pass over entry \<open>i\<close>.\<close>

definition normalizeEntry :: "env \<Rightarrow> nat \<Rightarrow> bytes \<Rightarrow> bytes" where
  "normalizeEntry e i h =
     (case unmarshalPR e h of
        Some pr \<Rightarrow>
          (case marshalPR e (pr\<lparr>ReferenceMonth := refLabel e i\<rparr>) of
             Some nb \<Rightarrow> nb | None \<Rightarrow> h)
      | None \<Rightarrow>
          (case unmarshalMap e h of
             Some raw \<Rightarrow>
               (case marshalAny e (JObj (AList.update ''referenceMonth'' (JStr (refLabel e i)) raw)) of
                  Some nb \<Rightarrow> nb | None \<Rightarrow> h)
           | None \<Rightarrow> h))"

definition normalizeHistory :: "env \<Rightarrow> bytes list \<Rightarrow> bytes list" where
  "normalizeHistory e history = map (\<lambda>(i, h). normalizeEntry e i h) (enumerate 0 history)"

text \<open>\<^verbatim>\<open>b, _ := json.Marshal(resp)\<close>: nothing is written when it fails.\<close>

definition respondHistory :: "env \<Rightarrow> bytes list \<Rightarrow> response" where
  "respondHistory e history =
     Written (case marshalHistory e (normalizeHistory e history) of Some b \<Rightarrow> b | None \<Rightarrow> [])"

text \<open>The handler from the fallback on, \<open>err\<close> being the error of the native fetch.\<close>

definition synthesize :: "env \<Rightarrow> request \<Rightarrow> string \<Rightarrow> response" where
  "synthesize e r err =
     (let history = collect (probeAll e r)
      in if history = []
         then (case fetchExternal e (priceURL r) of
                 Inl err2 \<Rightarrow>
                   HttpError 502
                     (''history fetch failed: '' @ err @ '', fallback failed: '' @ err2)
               | Inr single \<Rightarrow> respondHistory e [single])
         else respondHistory e history)"

definition handleGetPriceHistory :: "env \<Rightarrow> request \<Rightarrow> metrics \<Rightarrow> metrics \<times> response" where
  "handleGetPriceHistory e r m =
     (recordMetrics ''/api/priceHistory'' (reqMethod r) m,
      case fetchExternal e (histURL r) of
        Inr d \<Rightarrow> respondDirect e d
      | Inl err \<Rightarrow> synthesize e r err)"


section \<open>Concrete runs\<close>

text \<open>
  The inputs at which the theorems below are evaluated: a request, upstream payloads,
  and what \<^verbatim>\<open>encoding/json\<close> does on the payloads these runs meet. \<open>marshalPlain\<close>,
  \<open>renderPlain\<close> and \<open>plainHistory\<close> are \<^verbatim>\<open>json.Marshal\<close> on values whose strings
  need no escaping, whose numbers are integers and whose object keys are listed in
  sorted order; the two decoding tables list the payloads that reach the decoder in
  these runs, and answer \<open>None\<close> to the text that is no JSON.
\<close>

definition quoted :: "string \<Rightarrow> string" where
  "quoted s = [CHR 0x22] @ s @ [CHR 0x22]"

fun joinComma :: "string list \<Rightarrow> string" where
  "joinComma [] = []"
| "joinComma [x] = x"
| "joinComma (x # y # ys) = x @ '','' @ joinComma (y # ys)"

definition marshalPlain :: "PriceResponse \<Rightarrow> bytes" where
  "marshalPlain p =
     ''{'' @ joinComma
       [quoted ''price'' @ '':'' @ quoted (Price p),
        quoted ''brand'' @ '':'' @ quoted (Brand p),
        quoted ''model'' @ '':'' @ quoted (Model p),
        quoted ''modelYear'' @ '':'' @ showInt (ModelYear p),
        quoted ''fuel'' @ '':'' @ quoted (Fuel p),
        quoted ''codeFipe'' @ '':'' @ quoted (CodeFipe p),
        quoted ''referenceMonth'' @ '':'' @ quoted (ReferenceMonth p),
        quoted ''vehicleType'' @ '':'' @ showInt (VehicleType p),
        quoted ''acronymFuel'' @ '':'' @ quoted (AcronymFuel p)] @ ''}''"

fun renderPlain :: "json \<Rightarrow> string" where
  "renderPlain JNull = ''null''"
| "renderPlain (JBool b) = (if b then ''true'' else ''false'')"
| "renderPlain (JNum q) = showInt \<lfloor>q\<rfloor>"
| "renderPlain (JStr s) = quoted s"
| "renderPlain (JArr xs) = ''['' @ joinComma (map renderPlain xs) @ '']''"
| "renderPlain (JObj kvs) =
     ''{'' @ joinComma (map (\<lambda>kv. quoted (fst kv) @ '':'' @ renderPlain (snd kv)) kvs) @ ''}''"

definition plainHistory :: "bytes list \<Rightarrow> bytes" where
  "plainHistory hs = ''{'' @ quoted ''history'' @ '':['' @ joinComma hs @ '']}''"

definition golRecord :: PriceResponse where
  "golRecord =
     \<lparr>Price = ''R$ 10.000,00'', Brand = ''VW'', Model = ''Gol'', ModelYear = 2014,
      Fuel = ''Gasolina'', CodeFipe = ''005004-1'', ReferenceMonth = ''abril de 2025'',
      VehicleType = 1, AcronymFuel = ''G''\<rparr>"

definition emptyRecord :: PriceResponse where
  "emptyRecord =
     \<lparr>Price = [], Brand = [], Model = [], ModelYear = 0, Fuel = [], CodeFipe = [],
      ReferenceMonth = [], VehicleType = 0, AcronymFuel = []\<rparr>"

text \<open>Upstream payloads: a full record, a record without fuel, a record whose price
  is no number, an empty object, a page that is no JSON, and a native history.\<close>

definition golPayload :: bytes where
  "golPayload = marshalPlain golRecord"

definition noFuelPayload :: bytes where
  "noFuelPayload = marshalPlain (golRecord\<lparr>Fuel := [], AcronymFuel := []\<rparr>)"

definition noPricePayload :: bytes where
  "noPricePayload = marshalPlain (golRecord\<lparr>Price := ''sob consulta''\<rparr>)"

definition htmlPayload :: bytes where
  "htmlPayload = ''<html>maintenance</html>''"

definition historyTree :: "string \<Rightarrow> string \<Rightarrow> json" where
  "historyTree l0 l1 =
     JObj [(''history'',
            JArr [JObj [(''price'', JStr ''R$ 10.000,00''), (''referenceMonth'', JStr l0)],
                  JObj [(''price'', JStr ''R$ 9.800,00''), (''referenceMonth'', JStr l1)]])]"

definition historyPayload :: bytes where
  "historyPayload = renderPlain (historyTree ''abril de 2025'' ''marco de 2025'')"

definition tableUnmarshalPR :: "bytes \<Rightarrow> PriceResponse option" where
  "tableUnmarshalPR b =
     (if b = golPayload then Some golRecord
      else if b = noFuelPayload then Some (golRecord\<lparr>Fuel := [], AcronymFuel := []\<rparr>)
      else if b = noPricePayload then Some (golRecord\<lparr>Price := ''sob consulta''\<rparr>)
      else if b = ''{}'' then Some emptyRecord
      else None)"

definition tableUnmarshalAny :: "bytes \<Rightarrow> json option" where
  "tableUnmarshalAny b =
     (if b = historyPayload then Some (historyTree ''abril de 2025'' ''marco de 2025'')
      else if b = ''{}'' then Some (JObj [])
      else None)"

definition run :: "(url \<Rightarrow> http_result) \<Rightarrow> date \<Rightarrow> env" where
  "run net d =
     \<lparr>httpGet = net, today = d,
      unmarshalPR = tableUnmarshalPR,
      marshalPR = (\<lambda>p. Some (marshalPlain p)),
      unmarshalAny = tableUnmarshalAny,
      marshalAny = (\<lambda>j. Some (renderPlain j)),
      marshalHistory = (\<lambda>hs. Some (plainHistory hs))\<rparr>"

definition golRequest :: request where
  "golRequest =
     \<lparr>reqMethod = ''GET'', vType = ''cars'', brandId = ''59'', modelId = ''5940'',
      yearId = ''2014-1'', brandName = ''VW'', modelName = ''Gol'', monthsStr = ''3''\<rparr>"

definition metrics0 :: metrics where
  "metrics0 =
     \<lparr>httpRequestsTotal = (\<lambda>k. 0), vehicleSearchStats = (\<lambda>k. 0),
      priceMinGauge = Map.empty, priceMaxGauge = Map.empty,
      fuelCounter = (\<lambda>k. 0), brandCounter = (\<lambda>k. 0)\<rparr>"

text \<open>Upstreams: every URL answers 200 with one payload; only the native history
  endpoint is missing (404); everything is down; only the price endpoint is up.\<close>

definition always :: "bytes \<Rightarrow> url \<Rightarrow> http_result" where
  "always b u = Response 200 (Inr b)"

definition noNative :: "bytes \<Rightarrow> url \<Rightarrow> http_result" where
  "noNative b u =
     (if u = histURL golRequest then Response 404 (Inr []) else Response 200 (Inr b))"

definition down :: "url \<Rightarrow> http_result" where
  "down u = TransportError ''connection refused''"

definition onlyPrice :: "bytes \<Rightarrow> url \<Rightarrow> http_result" where
  "onlyPrice b u =
     (if u = priceURL golRequest then Response 200 (Inr b)
      else TransportError ''connection refused'')"

definition mar15 :: date where
  "mar15 = \<lparr>year = 2026, month = 3, day = 15\<rparr>"

definition mar31 :: date where
  "mar31 = \<lparr>year = 2026, month = 3, day = 31\<rparr>"

section \<open>The cache\<close>

text \<open>
  C5. A get that follows a put of a positive TTL, at any time up to the expiry,
  returns the stored bytes with found = true; a get after the expiry, or for a key
  that was never stored, returns found = false.
\<close>

theorem getCached_setCached:
  "(0 < ttl \<and> t0 \<le> t1 \<and> t1 \<le> t0 + ttl \<longrightarrow>
      getCached (setCached c t0 key d ttl) t1 key = (d, True)) \<and>
   (t0 + ttl < t1 \<longrightarrow> getCached (setCached c t0 key d ttl) t1 key = ([], False)) \<and>
   (c key = None \<longrightarrow> getCached c t1 key = ([], False))"
  by (simp add: getCached_def setCached_def)

theorem getCached_setCached_witness:
  "getCached (setCached Map.empty 1000 ''brands:cars'' ''[]'' 43200) 1000 ''brands:cars''
     = (''[]'', True) \<and>
   getCached (setCached Map.empty 1000 ''brands:cars'' ''[]'' 43200) 44201 ''brands:cars''
     = ([], False) \<and>
   getCached Map.empty 1000 ''brands:cars'' = ([], False)"
  using getCached_setCached [of 43200 1000 1000 Map.empty "''brands:cars''" "''[]''"]
    getCached_setCached [of 43200 1000 44201 Map.empty "''brands:cars''" "''[]''"]
  by simp

section \<open>\<^verbatim>\<open>parsePrice\<close>\<close>

lemma isDigit_not_sep [simp]: "\<not> isDigit (CHR ''.'')" "\<not> isDigit (CHR '','')"
  by (simp_all add: isDigit_def)

lemma isSpace_not_inClass: "isSpace c \<Longrightarrow> \<not> inClass c"
  by (auto simp add: isSpace_def inClass_def isDigit_def)

lemma set_TrimSpace: "set (TrimSpace s) \<subseteq> set s"
  by (auto simp add: TrimSpace_def dest!: set_dropWhileD)

lemma dropWhile_keeps: "c \<in> set s \<Longrightarrow> \<not> P c \<Longrightarrow> c \<in> set (dropWhile P s)"
  by (induction s) auto

lemma TrimSpace_keeps: "c \<in> set s \<Longrightarrow> \<not> isSpace c \<Longrightarrow> c \<in> set (TrimSpace s)"
  by (simp add: TrimSpace_def dropWhile_keeps)

lemma set_FindString: "set (FindString s) \<subseteq> set s"
  unfolding FindString_def
  by (meson set_takeWhileD set_dropWhileD subsetI)

lemma FindString_inClass: "c \<in> set (FindString s) \<Longrightarrow> inClass c"
  unfolding FindString_def by (rule set_takeWhileD [THEN conjunct2])

lemma FindString_empty_iff: "FindString s = [] \<longleftrightarrow> (\<forall>c\<in>set s. \<not> inClass c)"
proof
  assume h: "FindString s = []"
  show "\<forall>c\<in>set s. \<not> inClass c"
  proof (rule ccontr)
    assume "\<not> (\<forall>c\<in>set s. \<not> inClass c)"
    then have ne: "dropWhile (\<lambda>c. \<not> inClass c) s \<noteq> []"
      by (auto simp add: dropWhile_eq_Nil_conv)
    then have "inClass (hd (dropWhile (\<lambda>c. \<not> inClass c) s))"
      using hd_dropWhile [of "\<lambda>c. \<not> inClass c" s] by simp
    with ne have "takeWhile inClass (dropWhile (\<lambda>c. \<not> inClass c) s) \<noteq> []"
      by (cases "dropWhile (\<lambda>c. \<not> inClass c) s") auto
    with h show False by (simp add: FindString_def)
  qed
next
  assume "\<forall>c\<in>set s. \<not> inClass c"
  then have "dropWhile (\<lambda>c. \<not> inClass c) s = []"
    by (simp add: dropWhile_eq_Nil_conv)
  then show "FindString s = []"
    unfolding FindString_def by (simp only: takeWhile.simps)
qed

text \<open>Trimming never changes whether there is a match: white space is outside the
  class.\<close>

lemma FindString_TrimSpace_empty_iff:
  "FindString (TrimSpace s) = [] \<longleftrightarrow> filter inClass s = []"
proof -
  have "(\<forall>c\<in>set (TrimSpace s). \<not> inClass c) \<longleftrightarrow> (\<forall>c\<in>set s. \<not> inClass c)"
    using set_TrimSpace [of s] TrimSpace_keeps [of _ s] isSpace_not_inClass by blast
  then show ?thesis
    by (simp add: FindString_empty_iff filter_empty_conv)
qed

lemma commasToDots_Nil [simp]: "commasToDots xs = [] \<longleftrightarrow> xs = []"
  by (simp add: commasToDots_def)

lemma commasToDots_class:
  assumes "\<forall>c\<in>set xs. inClass c"
  shows "\<forall>c\<in>set (commasToDots xs). isDigit c \<or> c = CHR ''.''"
proof
  fix c assume "c \<in> set (commasToDots xs)"
  then obtain d where d: "d \<in> set xs" "c = (if d = CHR '','' then CHR ''.'' else d)"
    by (auto simp add: commasToDots_def)
  with assms have "isDigit d \<or> d = CHR '','' \<or> d = CHR ''.''"
    by (simp add: inClass_def)
  with d(2) show "isDigit c \<or> c = CHR ''.''"
    by (cases "d = CHR '',''") auto
qed

text \<open>What \<^verbatim>\<open>parsePrice\<close> passes to \<^verbatim>\<open>strconv.ParseFloat\<close> holds digits and dots
  only, the strings on which \<open>ParseFloat\<close> models it.\<close>

lemma fixSeparators_chars:
  assumes "\<forall>c\<in>set m. inClass c"
  shows "\<forall>c\<in>set (fixSeparators m). isDigit c \<or> c = CHR ''.''"
proof (cases "CHR '','' \<in> set m")
  case True
  have "\<forall>c\<in>set (removeDots m). inClass c"
    using assms by (simp add: removeDots_def)
  from commasToDots_class [OF this] commasToDots_class [OF assms] True show ?thesis
    by (simp add: fixSeparators_def)
next
  case False
  then have "fixSeparators m = m" by (simp add: fixSeparators_def)
  moreover have "\<forall>c\<in>set m. isDigit c \<or> c = CHR ''.''"
  proof
    fix c assume c: "c \<in> set m"
    with assms have "inClass c" by simp
    moreover from c False have "c \<noteq> CHR '',''" by metis
    ultimately show "isDigit c \<or> c = CHR ''.''" unfolding inClass_def by blast
  qed
  ultimately show ?thesis by simp
qed

lemma parsePrice_argument_chars:
  "\<forall>c\<in>set (fixSeparators (FindString (TrimSpace s))). isDigit c \<or> c = CHR ''.''"
  by (rule fixSeparators_chars) (simp add: FindString_inClass)

lemma commasToDots_dots:
  assumes "\<forall>c\<in>set xs. c = CHR '','' \<or> c = CHR ''.''"
  shows "\<forall>c\<in>set (commasToDots xs). c = CHR ''.''"
  using assms by (induction xs) (auto simp add: commasToDots_def)

lemma fixSeparators_no_digit:
  assumes cls: "\<forall>c\<in>set m. inClass c" and nod: "\<forall>c\<in>set m. \<not> isDigit c" and ne: "m \<noteq> []"
  shows "fixSeparators m \<noteq> [] \<and> (\<forall>c\<in>set (fixSeparators m). c = CHR ''.'')"
proof -
  have sep: "\<forall>c\<in>set m. c = CHR '','' \<or> c = CHR ''.''"
  proof
    fix c assume "c \<in> set m"
    with cls nod have "inClass c" "\<not> isDigit c" by simp_all
    then show "c = CHR '','' \<or> c = CHR ''.''" unfolding inClass_def by blast
  qed
  show ?thesis
  proof (cases "CHR '','' \<in> set m")
    case True
    then have "CHR '','' \<in> set (removeDots m)" by (simp add: removeDots_def)
    then have ne': "removeDots m \<noteq> []" by (cases "removeDots m") simp_all
    have "set (removeDots m) \<subseteq> set m" by (simp add: removeDots_def)
    with sep have sep': "\<forall>c\<in>set (removeDots m). c = CHR '','' \<or> c = CHR ''.''"
      by blast
    show ?thesis
    proof (cases "CHR ''.'' \<in> set m")
      case dot: True
      with True have "fixSeparators m = commasToDots (removeDots m)"
        by (simp add: fixSeparators_def)
      with commasToDots_dots [OF sep'] ne' show ?thesis by simp
    next
      case False
      with True have "fixSeparators m = commasToDots m"
        by (simp add: fixSeparators_def)
      with commasToDots_dots [OF sep] ne show ?thesis by simp
    qed
  next
    case False
    then have eq: "fixSeparators m = m" by (simp add: fixSeparators_def)
    have "\<forall>c\<in>set m. c = CHR ''.''"
    proof
      fix c assume c: "c \<in> set m"
      with False have "c \<noteq> CHR '',''" by blast
      with sep c show "c = CHR ''.''" by blast
    qed
    with eq ne show ?thesis by simp
  qed
qed

lemma ParseFloat_dots:
  assumes "s \<noteq> []" "\<forall>c\<in>set s. c = CHR ''.''"
  shows "ParseFloat s = Inl ErrSyntax"
proof -
  obtain cs where s: "s = CHR ''.'' # cs" using assms by (cases s) auto
  have cs: "\<forall>c\<in>set cs. c = CHR ''.''" using assms(2) s by simp
  have "(\<not> list_all isDigit cs \<or> cs = []) = True"
    using cs by (cases cs) auto
  then show ?thesis
    unfolding ParseFloat_def s Let_def
    by (simp only: takeWhile.simps dropWhile.simps isDigit_not_sep if_False list.case
        append_Nil list.sel simp_thms if_True)
qed

lemma parsePrice_no_digit:
  assumes "filter isDigit s = []"
  shows "parsePrice s = (if filter inClass s = [] then Inl NoNumericPart else Inl ErrSyntax)"
proof (cases "filter inClass s = []")
  case True
  then show ?thesis
    by (simp add: parsePrice_def FindString_TrimSpace_empty_iff)
next
  case False
  define m where "m = FindString (TrimSpace s)"
  have ne: "m \<noteq> []" using False by (simp add: m_def FindString_TrimSpace_empty_iff)
  have cls: "\<forall>c\<in>set m. inClass c" by (simp add: m_def FindString_inClass)
  have "set m \<subseteq> set s"
    unfolding m_def using set_FindString set_TrimSpace by fast
  with assms have nod: "\<forall>c\<in>set m. \<not> isDigit c"
    by (auto simp add: filter_empty_conv)
  from fixSeparators_no_digit [OF cls nod ne]
  have "ParseFloat (fixSeparators m) = Inl ErrSyntax"
    by (simp add: ParseFloat_dots)
  with ne False show ?thesis
    by (simp add: parsePrice_def m_def [symmetric] Let_def)
qed

lemmas parse_eval = parsePrice_def FindString_def TrimSpace_def isSpace_def inClass_def
  isDigit_def fixSeparators_def removeDots_def commasToDots_def ParseFloat_def decimal_def
  digitVal_def

lemma parsePrice_gol: "parsePrice ''R$ 10.000,00'' = Inr 10000"
  by (simp add: parse_eval)

lemma parsePrice_sob_consulta: "parsePrice ''sob consulta'' = Inl NoNumericPart"
  by (simp add: parse_eval)

text \<open>
  C4, as stated, fails: the input \<^verbatim>\<open>"."\<close> holds no digit, yet the pattern matches
  it, and the error is the syntax error of \<^verbatim>\<open>strconv.ParseFloat\<close>, not ``no numeric
  part''.
\<close>

theorem parsePrice_dot_counterexample:
  "filter isDigit ''.'' = [] \<and> parsePrice ''.'' = Inl ErrSyntax"
  by (simp add: parse_eval)

text \<open>
  C4, amended. The three examples parse to 1234.56. Whenever the pattern matches a
  part \<open>m\<close> of the input, the result is that of parsing \<open>m\<close> after the separators
  are rewritten: with both a dot and a comma in \<open>m\<close> the dots are removed and the
  commas become dots, with commas only the commas become dots, otherwise \<open>m\<close> is
  parsed as it is. An input with no digit is an error: ``no numeric part'' when it has
  no digit, comma or dot at all, the syntax error of the number parser otherwise.
\<close>

theorem parsePrice_spec:
  "parsePrice ''1.234,56'' = Inr (123456 / 100) \<and>
   parsePrice ''1234.56'' = Inr (123456 / 100) \<and>
   parsePrice ''1234,56'' = Inr (123456 / 100) \<and>
   (FindString (TrimSpace s) = m \<and> m \<noteq> [] \<longrightarrow>
      parsePrice s =
        ParseFloat (if CHR ''.'' \<in> set m \<and> CHR '','' \<in> set m then commasToDots (removeDots m)
                    else if CHR '','' \<in> set m then commasToDots m
                    else m)) \<and>
   (filter isDigit s = [] \<longrightarrow>
      parsePrice s = (if filter inClass s = [] then Inl NoNumericPart else Inl ErrSyntax))"
proof (intro conjI impI)
  show "parsePrice ''1.234,56'' = Inr (123456 / 100)" by (simp add: parse_eval)
  show "parsePrice ''1234.56'' = Inr (123456 / 100)" by (simp add: parse_eval)
  show "parsePrice ''1234,56'' = Inr (123456 / 100)" by (simp add: parse_eval)
next
  assume "FindString (TrimSpace s) = m \<and> m \<noteq> []"
  then show "parsePrice s =
        ParseFloat (if CHR ''.'' \<in> set m \<and> CHR '','' \<in> set m then commasToDots (removeDots m)
                    else if CHR '','' \<in> set m then commasToDots m
                    else m)"
    by (auto simp add: parsePrice_def Let_def fixSeparators_def)
next
  assume "filter isDigit s = []"
  then show "parsePrice s = (if filter inClass s = [] then Inl NoNumericPart else Inl ErrSyntax)"
    by (rule parsePrice_no_digit)
qed

theorem parsePrice_spec_witness:
  "parsePrice ''R$ 10.000,00'' = ParseFloat ''10000.00'' \<and>
   parsePrice ''R$ 10000,5'' = ParseFloat ''10000.5'' \<and>
   parsePrice ''sob consulta'' = Inl NoNumericPart \<and>
   parsePrice ''R$ ,'' = Inl ErrSyntax"
  using parsePrice_spec [of "''R$ 10.000,00''" "''10.000,00''"]
    parsePrice_spec [of "''R$ 10000,5''" "''10000,5''"]
    parsePrice_spec [of "''sob consulta''"]
    parsePrice_spec [of "''R$ ,''"]
  by (simp add: FindString_def TrimSpace_def isSpace_def inClass_def isDigit_def
      removeDots_def commasToDots_def)

section \<open>\<^verbatim>\<open>handleGetPrice\<close>\<close>

lemma countSearch_simps:
  "vehicleSearchStats (countSearch r m) =
     (vehicleSearchStats m)((brandName r, modelName r, yearId r) :=
        vehicleSearchStats m (brandName r, modelName r, yearId r) + 1)"
  "brandCounter (countSearch r m) =
     (brandCounter m)(brandName r := brandCounter m (brandName r) + 1)"
  "priceMinGauge (countSearch r m) = priceMinGauge m"
  "priceMaxGauge (countSearch r m) = priceMaxGauge m"
  "fuelCounter (countSearch r m) = fuelCounter m"
  by (simp_all add: countSearch_def recordMetrics_def Let_def)

lemma observePrice_counters:
  "vehicleSearchStats (observePrice r pr m) = vehicleSearchStats m"
  "brandCounter (observePrice r pr m) = brandCounter m"
  by (simp_all add: observePrice_def Let_def split: sum.split)

lemma observePrice_fuel:
  "fuelCounter (observePrice r pr m) =
     (if Fuel pr = [] then fuelCounter m
      else (fuelCounter m)(Fuel pr := fuelCounter m (Fuel pr) + 1))"
  by (simp add: observePrice_def Let_def split: sum.split)

lemma observePrice_gauges_set:
  "parsePrice (Price pr) = Inr f \<Longrightarrow>
   priceMinGauge (observePrice r pr m) = (priceMinGauge m)((Brand pr, Model pr, yearId r) \<mapsto> f) \<and>
   priceMaxGauge (observePrice r pr m) = (priceMaxGauge m)((Brand pr, Model pr, yearId r) \<mapsto> f)"
  by (simp add: observePrice_def Let_def)

lemma observePrice_gauges_kept:
  "parsePrice (Price pr) = Inl err \<Longrightarrow>
   priceMinGauge (observePrice r pr m) = priceMinGauge m \<and>
   priceMaxGauge (observePrice r pr m) = priceMaxGauge m"
  by (simp add: observePrice_def Let_def)

text \<open>The concrete runs of the price handler.\<close>

lemma fetch_always: "fetchExternal (run (always b) d) u = Inr b"
  by (simp add: fetchExternal_def run_def always_def)

lemma fetch_down: "fetchExternal (run down d) u = Inl ''connection refused''"
  by (simp add: fetchExternal_def run_def down_def)

lemma payloads_distinct:
  "noFuelPayload \<noteq> golPayload" "noPricePayload \<noteq> golPayload" "noPricePayload \<noteq> noFuelPayload"
  "htmlPayload \<noteq> golPayload" "htmlPayload \<noteq> noFuelPayload" "htmlPayload \<noteq> noPricePayload"
  "htmlPayload \<noteq> ''{}''"
  by (simp_all add: golPayload_def noFuelPayload_def noPricePayload_def htmlPayload_def
      marshalPlain_def golRecord_def quoted_def)

lemma unmarshalPR_run:
  "unmarshalPR (run net d) golPayload = Some golRecord"
  "unmarshalPR (run net d) noFuelPayload = Some (golRecord\<lparr>Fuel := [], AcronymFuel := []\<rparr>)"
  "unmarshalPR (run net d) noPricePayload = Some (golRecord\<lparr>Price := ''sob consulta''\<rparr>)"
  "unmarshalPR (run net d) htmlPayload = None"
  by (simp_all add: run_def tableUnmarshalPR_def payloads_distinct)



text \<open>
  C7. A payload that was fetched is written to the caller as it is. When it does not
  decode, no collector is touched after the fetch; when it decodes and the price does
  not parse, the two price gauges are left as they were.
\<close>

theorem handleGetPrice_payload_unchanged:
  "fetchExternal e (priceURL r) = Inr d \<Longrightarrow>
   snd (handleGetPrice e r m) = Written d \<and>
   (unmarshalPR e d = None \<longrightarrow> fst (handleGetPrice e r m) = countSearch r m) \<and>
   (\<forall>pr err. unmarshalPR e d = Some pr \<and> parsePrice (Price pr) = Inl err \<longrightarrow>
      priceMinGauge (fst (handleGetPrice e r m)) = priceMinGauge m \<and>
      priceMaxGauge (fst (handleGetPrice e r m)) = priceMaxGauge m)"
  by (auto simp add: handleGetPrice_def Let_def countSearch_simps observePrice_gauges_kept
      split: option.split)

theorem handleGetPrice_payload_unchanged_witness:
  "snd (handleGetPrice (run (always htmlPayload) mar15) golRequest metrics0) = Written htmlPayload \<and>
   fst (handleGetPrice (run (always htmlPayload) mar15) golRequest metrics0)
     = countSearch golRequest metrics0 \<and>
   snd (handleGetPrice (run (always noPricePayload) mar15) golRequest metrics0)
     = Written noPricePayload \<and>
   priceMinGauge (fst (handleGetPrice (run (always noPricePayload) mar15) golRequest metrics0))
     = Map.empty \<and>
   priceMaxGauge (fst (handleGetPrice (run (always noPricePayload) mar15) golRequest metrics0))
     = Map.empty"
  using handleGetPrice_payload_unchanged
          [of "run (always htmlPayload) mar15" golRequest htmlPayload metrics0]
        handleGetPrice_payload_unchanged
          [of "run (always noPricePayload) mar15" golRequest noPricePayload metrics0]
  by (simp add: fetch_always unmarshalPR_run parsePrice_sob_consulta metrics0_def)

text \<open>
  C9. When a request updates the price gauges, the minimum gauge and the maximum
  gauge of its label set both hold the price of that request, whatever they held
  before; and if the two gauge vectors agree before a request they agree after it.
  (Requests are taken one at a time.)
\<close>

theorem handleGetPrice_min_equals_max:
  "(fetchExternal e (priceURL r) = Inr d \<and> unmarshalPR e d = Some pr \<and>
    parsePrice (Price pr) = Inr f \<longrightarrow>
      priceMinGauge (fst (handleGetPrice e r m)) (Brand pr, Model pr, yearId r) = Some f \<and>
      priceMaxGauge (fst (handleGetPrice e r m)) (Brand pr, Model pr, yearId r) = Some f) \<and>
   (priceMinGauge m = priceMaxGauge m \<longrightarrow>
      priceMinGauge (fst (handleGetPrice e r m)) = priceMaxGauge (fst (handleGetPrice e r m)))"
proof (intro conjI impI)
  assume h: "fetchExternal e (priceURL r) = Inr d \<and> unmarshalPR e d = Some pr \<and>
    parsePrice (Price pr) = Inr f"
  then have m': "fst (handleGetPrice e r m) = observePrice r pr (countSearch r m)"
    by (simp add: handleGetPrice_def Let_def)
  from h show "priceMinGauge (fst (handleGetPrice e r m)) (Brand pr, Model pr, yearId r) = Some f"
    by (simp add: m' observePrice_gauges_set)
  from h show "priceMaxGauge (fst (handleGetPrice e r m)) (Brand pr, Model pr, yearId r) = Some f"
    by (simp add: m' observePrice_gauges_set)
next
  assume inv: "priceMinGauge m = priceMaxGauge m"
  have obs: "priceMinGauge (observePrice r p (countSearch r m)) =
             priceMaxGauge (observePrice r p (countSearch r m))" for p
    by (cases "parsePrice (Price p)")
       (simp_all add: observePrice_gauges_kept observePrice_gauges_set countSearch_simps inv)
  show "priceMinGauge (fst (handleGetPrice e r m)) = priceMaxGauge (fst (handleGetPrice e r m))"
    by (simp add: handleGetPrice_def Let_def obs countSearch_simps inv
        split: sum.split option.split)
qed

theorem handleGetPrice_min_equals_max_witness:
  "priceMinGauge (fst (handleGetPrice (run (always golPayload) mar15) golRequest
      (metrics0\<lparr>priceMinGauge := [(''VW'', ''Gol'', ''2014-1'') \<mapsto> 9000],
                priceMaxGauge := [(''VW'', ''Gol'', ''2014-1'') \<mapsto> 11000]\<rparr>)))
     (''VW'', ''Gol'', ''2014-1'') = Some 10000 \<and>
   priceMaxGauge (fst (handleGetPrice (run (always golPayload) mar15) golRequest
      (metrics0\<lparr>priceMinGauge := [(''VW'', ''Gol'', ''2014-1'') \<mapsto> 9000],
                priceMaxGauge := [(''VW'', ''Gol'', ''2014-1'') \<mapsto> 11000]\<rparr>)))
     (''VW'', ''Gol'', ''2014-1'') = Some 10000 \<and>
   priceMinGauge (fst (handleGetPrice (run (always golPayload) mar15) golRequest metrics0))
     = priceMaxGauge (fst (handleGetPrice (run (always golPayload) mar15) golRequest metrics0))"
  using handleGetPrice_min_equals_max
          [of "run (always golPayload) mar15" golRequest golPayload golRecord 10000
              "metrics0\<lparr>priceMinGauge := [(''VW'', ''Gol'', ''2014-1'') \<mapsto> 9000],
                        priceMaxGauge := [(''VW'', ''Gol'', ''2014-1'') \<mapsto> 11000]\<rparr>"]
        handleGetPrice_min_equals_max
          [of "run (always golPayload) mar15" golRequest golPayload golRecord 10000 metrics0]
  by (simp add: fetch_always unmarshalPR_run parsePrice_gol metrics0_def golRecord_def
      golRequest_def)

text \<open>
  C8, as stated, fails: an upstream record with the price \<^verbatim>\<open>R$ 10.000,00\<close> and no
  fuel decodes, and the fuel counter is not incremented for any label.
\<close>

theorem handleGetPrice_no_fuel_counterexample:
  "fetchExternal (run (always noFuelPayload) mar15) (priceURL golRequest) = Inr noFuelPayload \<and>
   map_option Price (unmarshalPR (run (always noFuelPayload) mar15) noFuelPayload)
     = Some ''R$ 10.000,00'' \<and>
   fuelCounter (fst (handleGetPrice (run (always noFuelPayload) mar15) golRequest metrics0))
     = fuelCounter metrics0"
  by (simp add: handleGetPrice_def fetch_always unmarshalPR_run observePrice_fuel
      countSearch_simps golRecord_def)

text \<open>
  C8, amended. When the upstream payload decodes into a record whose price is
  \<^verbatim>\<open>R$ 10.000,00\<close>, the minimum and the maximum gauge for the record's brand and model
  and the request's year are set to 10000, the brand counter of the request's brand
  name is incremented once, and the fuel counter of the record's fuel is incremented
  once when that fuel is not empty; with an empty fuel no fuel counter changes.
\<close>

theorem handleGetPrice_gauges_and_counters:
  "fetchExternal e (priceURL r) = Inr d \<Longrightarrow> unmarshalPR e d = Some pr \<Longrightarrow>
   Price pr = ''R$ 10.000,00'' \<Longrightarrow>
   priceMinGauge (fst (handleGetPrice e r m)) (Brand pr, Model pr, yearId r) = Some 10000 \<and>
   priceMaxGauge (fst (handleGetPrice e r m)) (Brand pr, Model pr, yearId r) = Some 10000 \<and>
   brandCounter (fst (handleGetPrice e r m)) =
     (brandCounter m)(brandName r := brandCounter m (brandName r) + 1) \<and>
   fuelCounter (fst (handleGetPrice e r m)) =
     (if Fuel pr = [] then fuelCounter m
      else (fuelCounter m)(Fuel pr := fuelCounter m (Fuel pr) + 1))"
proof -
  assume h: "fetchExternal e (priceURL r) = Inr d" "unmarshalPR e d = Some pr"
    "Price pr = ''R$ 10.000,00''"
  then have m': "fst (handleGetPrice e r m) = observePrice r pr (countSearch r m)"
    by (simp add: handleGetPrice_def Let_def)
  have p: "parsePrice (Price pr) = Inr 10000"
    using h(3) parsePrice_gol by simp
  show ?thesis
    unfolding m'
    by (simp add: observePrice_gauges_set [OF p] observePrice_counters observePrice_fuel
        countSearch_simps)
qed

theorem handleGetPrice_gauges_and_counters_witness:
  "priceMinGauge (fst (handleGetPrice (run (always golPayload) mar15) golRequest metrics0))
     (''VW'', ''Gol'', ''2014-1'') = Some 10000 \<and>
   priceMaxGauge (fst (handleGetPrice (run (always golPayload) mar15) golRequest metrics0))
     (''VW'', ''Gol'', ''2014-1'') = Some 10000 \<and>
   brandCounter (fst (handleGetPrice (run (always golPayload) mar15) golRequest metrics0))
     = (\<lambda>k. 0)(''VW'' := 1) \<and>
   fuelCounter (fst (handleGetPrice (run (always golPayload) mar15) golRequest metrics0))
     = (\<lambda>k. 0)(''Gasolina'' := 1)"
  using handleGetPrice_gauges_and_counters
          [of "run (always golPayload) mar15" golRequest golPayload golRecord metrics0]
  by (simp add: fetch_always unmarshalPR_run metrics0_def golRecord_def golRequest_def)

section \<open>\<^verbatim>\<open>handleGetPriceHistory\<close>\<close>


lemma Price_fillReferenceMonth [simp]: "Price (fillReferenceMonth ref pr) = Price pr"
  by (simp add: fillReferenceMonth_def split: list.split)


lemma tryCandidates_all_fail:
  "list_all (\<lambda>u. isl (fetchExternal e u)) us \<Longrightarrow> tryCandidates e ref us = None"
  by (induction us) (auto split: sum.splits)

lemma collect_all_None: "(\<forall>s\<in>set rs. s = None) \<Longrightarrow> collect rs = []"
  by (induction rs) (simp_all add: collect_def)

lemma candidates_not_hist: "u \<in> set (candidates r ref) \<Longrightarrow> u \<noteq> histURL r"
  by (auto simp add: candidates_def histURL_def)

lemma candidates_not_price: "u \<in> set (candidates r ref) \<Longrightarrow> u \<noteq> priceURL r"
  by (auto simp add: candidates_def)

lemma hist_not_price: "histURL r \<noteq> priceURL r"
  by (simp add: histURL_def)

text \<open>The concrete runs of the history handler.\<close>

lemma monthsOf_golRequest: "monthsOf golRequest = 3"
  by (simp add: monthsOf_def golRequest_def Atoi_def isDigit_def decimal_def digitVal_def)

lemma upt3: "[0..<3] = [0, 1, 2]"
  by (simp add: upt_rec)

lemma golPayload_nonempty: "golPayload \<noteq> []"
  by (simp add: golPayload_def marshalPlain_def)


lemma marshalPR_run: "marshalPR (run net d) p = Some (marshalPlain p)"
  by (simp add: run_def)

lemma marshalHistory_run: "marshalHistory (run net d) hs = Some (plainHistory hs)"
  by (simp add: run_def)

lemma today_run: "today (run net d) = d"
  by (simp add: run_def)

lemma fetch_noNative:
  "fetchExternal (run (noNative b) d) u =
     (if u = histURL golRequest
      then Inl (''external API returned status: 404 for url: '' @ histURL golRequest)
      else Inr b)"
  by (simp add: fetchExternal_def run_def noNative_def showNat.simps)

lemma fetch_onlyPrice:
  "fetchExternal (run (onlyPrice b) d) u =
     (if u = priceURL golRequest then Inr b else Inl ''connection refused'')"
  by (simp add: fetchExternal_def run_def onlyPrice_def)

lemma fill_gol: "fillReferenceMonth ref golRecord = golRecord"
  by (simp add: fillReferenceMonth_def golRecord_def)

lemma probe_noNative_gol:
  "probeMonth (run (noNative golPayload) d) golRequest i = Some golPayload"
proof -
  have "hd (candidates golRequest ref) \<noteq> histURL golRequest" for ref
    by (rule candidates_not_hist [of _ _ ref]) (simp add: candidates_def)
  moreover have "Price golRecord \<noteq> []" by (simp add: golRecord_def)
  ultimately show ?thesis
    by (simp add: probeMonth_def candidates_def fetch_noNative unmarshalPR_run fill_gol
        marshalPR_run golPayload_def [symmetric])
qed

lemma normalizeEntry_gol:
  "normalizeEntry (run net d) i golPayload =
     marshalPlain (golRecord\<lparr>ReferenceMonth := refLabel (run net d) i\<rparr>)"
  by (simp add: normalizeEntry_def unmarshalPR_run marshalPR_run)

lemmas date_eval = refLabel_def refDate_def today_run addMonths_def daysIn_def isLeap_def Let_def
  monthLabel_def pad2_def padLeft_def showInt_def showNat.simps mar31_def mar15_def

lemma labels_mar31:
  "refLabel (run net mar31) 0 = ''03/2026''"
  "refLabel (run net mar31) (Suc 0) = ''03/2026''"
  "refLabel (run net mar31) (Suc (Suc 0)) = ''01/2026''"
  by (simp_all add: date_eval)

lemma labels_mar15:
  "refLabel (run net mar15) 0 = ''03/2026''"
  "refLabel (run net mar15) (Suc 0) = ''02/2026''"
  "refLabel (run net mar15) (Suc (Suc 0)) = ''01/2026''"
  by (simp_all add: date_eval)





text \<open>
  C3. When the native fetch fails and every candidate of every requested month
  fails to fetch: if the fetch of the current price fails as well, the response is
  a 502 whose message holds the error of the native fetch and the error of the
  fallback; if it succeeds, the history returned has one entry, the normalised
  current price.
\<close>

theorem handleGetPriceHistory_total_failure:
  assumes native: "fetchExternal e (histURL r) = Inl err"
    and probes: "\<forall>i<monthsOf r. list_all (\<lambda>u. isl (fetchExternal e u))
                   (candidates r (formatYearMonth (refDate e i)))"
  shows "(fetchExternal e (priceURL r) = Inl err2 \<longrightarrow>
            snd (handleGetPriceHistory e r m) =
              HttpError 502 (''history fetch failed: '' @ err @ '', fallback failed: '' @ err2)) \<and>
         (fetchExternal e (priceURL r) = Inr single \<longrightarrow>
            snd (handleGetPriceHistory e r m) =
              Written (case marshalHistory e [normalizeEntry e 0 single] of
                         Some b \<Rightarrow> b | None \<Rightarrow> []))"
proof -
  have "\<forall>s\<in>set (probeAll e r). s = None"
    using probes by (auto simp add: probeAll_def probeMonth_def tryCandidates_all_fail)
  then have "collect (probeAll e r) = []" by (rule collect_all_None)
  then show ?thesis
    using native
    by (simp add: handleGetPriceHistory_def synthesize_def respondHistory_def normalizeHistory_def)
qed

lemma onlyPrice_candidates_fail:
  "list_all (\<lambda>u. isl (fetchExternal (run (onlyPrice b) d) u)) (candidates golRequest ref)"
  using candidates_not_price [of _ golRequest ref]
  by (auto simp add: list_all_iff fetch_onlyPrice)

theorem handleGetPriceHistory_total_failure_witness:
  "snd (handleGetPriceHistory (run down mar15) golRequest metrics0) =
     HttpError 502
       ''history fetch failed: connection refused, fallback failed: connection refused'' \<and>
   snd (handleGetPriceHistory (run (onlyPrice golPayload) mar15) golRequest metrics0) =
     Written (plainHistory [marshalPlain (golRecord\<lparr>ReferenceMonth := ''03/2026''\<rparr>)])"
proof -
  have n1: "fetchExternal (run down mar15) (histURL golRequest) = Inl ''connection refused''"
    by (rule fetch_down)
  have p1: "\<forall>i<monthsOf golRequest. list_all (\<lambda>u. isl (fetchExternal (run down mar15) u))
              (candidates golRequest (formatYearMonth (refDate (run down mar15) i)))"
    by (simp add: fetch_down list_all_iff)
  have n2: "fetchExternal (run (onlyPrice golPayload) mar15) (histURL golRequest)
              = Inl ''connection refused''"
    by (simp add: fetch_onlyPrice hist_not_price)
  have p2: "\<forall>i<monthsOf golRequest.
              list_all (\<lambda>u. isl (fetchExternal (run (onlyPrice golPayload) mar15) u))
                (candidates golRequest
                  (formatYearMonth (refDate (run (onlyPrice golPayload) mar15) i)))"
    by (simp add: onlyPrice_candidates_fail)
  from handleGetPriceHistory_total_failure
         [OF n1 p1, where ?err2.0 = "''connection refused''" and m = metrics0]
       handleGetPriceHistory_total_failure
         [OF n2 p2, where single = golPayload and m = metrics0]
  show ?thesis
    by (simp add: fetch_down fetch_onlyPrice marshalHistory_run normalizeEntry_gol labels_mar15)
qed

text \<open>
  C1 says that with months=3, the native endpoint failing and the three months
  answered, the entries are labelled with the current month, the month before it and
  the month before that, in this order and all different, whatever label the
  upstream gave. On the last day of March the handler does not do so: the native
  endpoint is missing, each month is answered with a full record carrying a label of
  the upstream, and the entries come back labelled 03/2026, 03/2026 and 01/2026.
  February is skipped and March is given twice, because February 31 is normalised to
  March 3.
\<close>

theorem history_month_end:
  "snd (handleGetPriceHistory (run (noNative golPayload) mar31) golRequest m) =
     Written (plainHistory
       [marshalPlain (golRecord\<lparr>ReferenceMonth := ''03/2026''\<rparr>),
        marshalPlain (golRecord\<lparr>ReferenceMonth := ''03/2026''\<rparr>),
        marshalPlain (golRecord\<lparr>ReferenceMonth := ''01/2026''\<rparr>)])"
  by (simp add: handleGetPriceHistory_def fetch_noNative synthesize_def probeAll_def
      monthsOf_golRequest upt3 probe_noNative_gol collect_def golPayload_nonempty
      respondHistory_def normalizeHistory_def normalizeEntry_gol labels_mar31
      marshalHistory_run)

text \<open>The same request in the middle of March is answered as C1 says.\<close>

lemma history_mid_month:
  "snd (handleGetPriceHistory (run (noNative golPayload) mar15) golRequest m) =
     Written (plainHistory
       [marshalPlain (golRecord\<lparr>ReferenceMonth := ''03/2026''\<rparr>),
        marshalPlain (golRecord\<lparr>ReferenceMonth := ''02/2026''\<rparr>),
        marshalPlain (golRecord\<lparr>ReferenceMonth := ''01/2026''\<rparr>)])"
  by (simp add: handleGetPriceHistory_def fetch_noNative synthesize_def probeAll_def
      monthsOf_golRequest upt3 probe_noNative_gol collect_def golPayload_nonempty
      respondHistory_def normalizeHistory_def normalizeEntry_gol labels_mar15
      marshalHistory_run)

lemma unmarshalAny_history:
  "unmarshalAny (run net d) historyPayload = Some (historyTree ''abril de 2025'' ''marco de 2025'')"
  by (simp add: run_def tableUnmarshalAny_def)

lemma marshalAny_run: "marshalAny (run net d) j = Some (renderPlain j)"
  by (simp add: run_def)

text \<open>
  C6 says that the element at index \<open>i\<close> of a native history gets the current month
  minus \<open>i\<close> as its reference month and keeps its other fields. On the last day of
  March the native endpoint answers with a history of two objects, and both come
  back labelled 03/2026, their prices unchanged.
\<close>

theorem native_history_month_end:
  "snd (handleGetPriceHistory (run (always historyPayload) mar31) golRequest m) =
     Written (renderPlain (historyTree ''03/2026'' ''03/2026''))"
  by (simp add: handleGetPriceHistory_def fetch_always respondDirect_def unmarshalAny_history
      normalizeDirect_def historyTree_def marshalAny_run labels_mar31
      del: renderPlain.simps)

subsection \<open>What the relabelling does on days 1 to 28\<close>

text \<open>Where no day is carried into the next month, the labels are the ones C1 and C6
  describe.\<close>

lemma daysIn_ge_28: "28 \<le> daysIn y m"
  by (simp add: daysIn_def)

lemma refDate_ordinary_day:
  assumes "day (today e) \<le> 28"
  shows "refDate e i =
           \<lparr>year = year (today e) + (int (month (today e)) - 1 - int i) div 12,
            month = nat ((int (month (today e)) - 1 - int i) mod 12) + 1,
            day = day (today e)\<rparr>"
proof -
  have "day (today e) \<le> daysIn y m" for y m
    using assms daysIn_ge_28 [of y m] by simp
  then show ?thesis
    by (simp add: refDate_def addMonths_def Let_def)
qed

lemma refDate_months_distinct:
  assumes "day (today e) \<le> 28" "i \<noteq> j"
  shows "year (refDate e i) \<noteq> year (refDate e j) \<or> month (refDate e i) \<noteq> month (refDate e j)"
proof (rule ccontr)
  let ?a = "int (month (today e)) - 1 - int i"
  let ?b = "int (month (today e)) - 1 - int j"
  assume "\<not> ?thesis"
  then have "?a div 12 = ?b div 12" "nat (?a mod 12) = nat (?b mod 12)"
    by (simp_all add: refDate_ordinary_day [OF assms(1)])
  moreover have "0 \<le> ?a mod 12" "0 \<le> ?b mod 12" by simp_all
  ultimately have "?a div 12 = ?b div 12" "?a mod 12 = ?b mod 12" by simp_all
  then have "?a = ?b" by (metis div_mult_mod_eq)
  with assms(2) show False by simp
qed

lemma digitVal_digit: "k < 10 \<Longrightarrow> digitVal (''0123456789'' ! k) = k"
proof -
  assume "k < 10"
  then have "k \<in> {0, 1, 2, 3, 4, 5, 6, 7, 8, 9}" by auto
  then show ?thesis by (auto simp add: digitVal_def)
qed

lemma decimal_snoc: "decimal (ds @ [c]) = 10 * decimal ds + digitVal c"
  by (simp add: decimal_def)

lemma decimal_showNat: "decimal (showNat n) = n"
proof (induction n rule: showNat.induct)
  case (1 n)
  show ?case
  proof (cases "n < 10")
    case True
    then show ?thesis
      by (subst showNat.simps) (simp add: decimal_def digitVal_digit)
  next
    case False
    have "n mod 10 < 10" by simp
    with False 1 show ?thesis
      by (subst showNat.simps) (simp add: decimal_snoc digitVal_digit)
  qed
qed

lemma showNat_inj: "showNat a = showNat b \<Longrightarrow> a = b"
  by (metis decimal_showNat)

lemma digit_isDigit: "k < 10 \<Longrightarrow> isDigit (''0123456789'' ! k)"
proof -
  assume "k < 10"
  then have "k \<in> {0, 1, 2, 3, 4, 5, 6, 7, 8, 9}" by auto
  then show ?thesis by (auto simp add: isDigit_def)
qed

lemma showNat_digits: "list_all isDigit (showNat n) \<and> showNat n \<noteq> []"
proof (induction n rule: showNat.induct)
  case (1 n)
  show ?case
  proof (cases "n < 10")
    case True
    then show ?thesis by (subst (1 2) showNat.simps) (simp add: digit_isDigit)
  next
    case False
    have "n mod 10 < 10" by simp
    with False 1 show ?thesis
      by (subst (1 2) showNat.simps) (simp add: digit_isDigit)
  qed
qed

lemma showNat_not_minus: "showNat n \<noteq> CHR ''-'' # s"
proof
  assume "showNat n = CHR ''-'' # s"
  with showNat_digits [of n] have "isDigit (CHR ''-'')" by simp
  then show False by (simp add: isDigit_def)
qed

lemma showInt_inj: "showInt a = showInt b \<Longrightarrow> a = b"
proof -
  assume h: "showInt a = showInt b"
  show ?thesis
  proof (cases "a < 0"; cases "b < 0")
    assume "a < 0" "b < 0"
    with h have "nat (- a) = nat (- b)" by (simp add: showInt_def showNat_inj)
    with \<open>a < 0\<close> \<open>b < 0\<close> show ?thesis by simp
  next
    assume "a < 0" "\<not> b < 0"
    with h have "showNat (nat b) = CHR ''-'' # showNat (nat (- a))" by (simp add: showInt_def)
    with showNat_not_minus show ?thesis by blast
  next
    assume "\<not> a < 0" "b < 0"
    with h have "showNat (nat a) = CHR ''-'' # showNat (nat (- b))" by (simp add: showInt_def)
    with showNat_not_minus show ?thesis by blast
  next
    assume "\<not> a < 0" "\<not> b < 0"
    with h have "nat a = nat b" by (simp add: showInt_def showNat_inj)
    with \<open>\<not> a < 0\<close> \<open>\<not> b < 0\<close> show ?thesis by simp
  qed
qed

lemma length_showNat: "n < 100 \<Longrightarrow> length (showNat n) = (if n < 10 then 1 else 2)"
proof -
  assume "n < 100"
  then have "n div 10 < 10" by simp
  then have "length (showNat (n div 10)) = 1" by (subst showNat.simps) simp
  then show ?thesis by (subst showNat.simps) simp
qed

lemma length_pad2: "n < 100 \<Longrightarrow> length (pad2 n) = 2"
  by (simp add: pad2_def padLeft_def length_showNat)

lemma pad2_inj: "a < 100 \<Longrightarrow> b < 100 \<Longrightarrow> pad2 a = pad2 b \<Longrightarrow> a = b"
proof -
  assume h: "a < 100" "b < 100" "pad2 a = pad2 b"
  have "decimal (pad2 n) = n" for n
  proof -
    have "decimal (replicate k (CHR ''0'') @ s) = decimal s" for k s
      by (induction k) (simp_all add: decimal_def digitVal_def)
    then show ?thesis by (simp add: pad2_def padLeft_def decimal_showNat)
  qed
  with h(3) show ?thesis by metis
qed

lemma monthLabel_inj:
  assumes "month s < 100" "month t < 100" "monthLabel s = monthLabel t"
  shows "month s = month t \<and> year s = year t"
proof -
  from assms(3) have eq: "pad2 (month s) @ (''/'' @ showInt (year s))
                        = pad2 (month t) @ (''/'' @ showInt (year t))"
    by (simp add: monthLabel_def)
  have "length (pad2 (month s)) = length (pad2 (month t))"
    using assms(1,2) by (simp add: length_pad2)
  with eq have "pad2 (month s) = pad2 (month t)" "showInt (year s) = showInt (year t)"
    by simp_all
  then show ?thesis using assms(1,2) pad2_inj showInt_inj by blast
qed

text \<open>On the days 1 to 28 of a month the label of index \<open>i\<close> is the month \<open>i\<close> months
  before the current one, and different indices get different labels.\<close>

lemma refLabel_ordinary_day:
  assumes "day (today e) \<le> 28"
  shows "refLabel e i =
           pad2 (nat ((int (month (today e)) - 1 - int i) mod 12) + 1) @ ''/'' @
           showInt (year (today e) + (int (month (today e)) - 1 - int i) div 12)"
  by (simp add: refLabel_def monthLabel_def refDate_ordinary_day [OF assms])

lemma refLabel_distinct:
  assumes "day (today e) \<le> 28" "i \<noteq> j"
  shows "refLabel e i \<noteq> refLabel e j"
proof
  assume eq: "refLabel e i = refLabel e j"
  have lt: "month (refDate e k) < 100" for k
  proof -
    have "(int (month (today e)) - 1 - int k) mod 12 < 12" by simp
    then have "nat ((int (month (today e)) - 1 - int k) mod 12) < 12" by linarith
    then have "nat ((int (month (today e)) - 1 - int k) mod 12) + 1 < 100" by linarith
    then show ?thesis unfolding refDate_ordinary_day [OF assms(1)] by simp
  qed
  from eq have "monthLabel (refDate e i) = monthLabel (refDate e j)"
    unfolding refLabel_def .
  from monthLabel_inj [OF lt lt this]
  have "month (refDate e i) = month (refDate e j) \<and> year (refDate e i) = year (refDate e j)" .
  with refDate_months_distinct [OF assms] show False by blast
qed

subsection \<open>Frame\<close>

text \<open>The final pass keeps the number and the order of the entries and relabels
  each entry by its index. The pass over a native history changes, in the decoded
  payload, the key \<^verbatim>\<open>history\<close> only, and in each of its elements that is an object
  the key \<^verbatim>\<open>referenceMonth\<close> only.\<close>

lemma length_normalizeHistory [simp]: "length (normalizeHistory e h) = length h"
  by (simp add: normalizeHistory_def)

lemma normalizeHistory_nth:
  "i < length h \<Longrightarrow> normalizeHistory e h ! i = normalizeEntry e i (h ! i)"
  by (simp add: normalizeHistory_def nth_enumerate_eq)

lemma normalizeEntry_record:
  "unmarshalPR e h = Some pr \<Longrightarrow> marshalPR e (pr\<lparr>ReferenceMonth := refLabel e i\<rparr>) = Some nb \<Longrightarrow>
   normalizeEntry e i h = nb"
  by (simp add: normalizeEntry_def)

lemma length_relabelItems [simp]: "length (relabelItems e i xs) = length xs"
  by (induction xs arbitrary: i) simp_all

lemma relabelItems_nth:
  "k < length xs \<Longrightarrow>
   relabelItems e i xs ! k =
     (case xs ! k of
        JObj item \<Rightarrow> JObj (AList.update ''referenceMonth'' (JStr (refLabel e (i + k))) item)
      | x \<Rightarrow> x)"
proof (induction xs arbitrary: i k)
  case Nil
  then show ?case by simp
next
  case (Cons x xs)
  show ?case
  proof (cases k)
    case 0
    then show ?thesis by (simp split: json.split)
  next
    case (Suc k')
    with Cons.prems have "k' < length xs" by simp
    from Cons.IH [OF this, of "Suc i"] Suc show ?thesis by (simp split: json.split)
  qed
qed

lemma relabelled_item_frame:
  "key \<noteq> ''referenceMonth'' \<Longrightarrow>
   map_of (AList.update ''referenceMonth'' v item) key = map_of item key"
  by (simp add: update_conv')

lemma normalizeDirect_frame:
  assumes "normalizeDirect e raw = Some j"
  obtains m arr m' where "raw = JObj m" "map_of m ''history'' = Some (JArr arr)" "j = JObj m'"
    "map_of m' = (map_of m)(''history'' \<mapsto> JArr (relabelItems e 0 arr))"
  using assms
  by (auto simp add: normalizeDirect_def update_conv' split: json.splits option.splits)

end
